theory Spec2Isabelle
  imports Complex_Main "HOL-Library.Word" "HOL-Library.Signed_Division"
begin

unbundle bit_operations_syntax

section \<open>The crypto envelope (src/crypto/crypto-module.cpp)\<close>

text \<open>
  Byte vectors are lists of 8-bit words. The fixed-width integers of the source keep
  their width: \<open>uint64_t\<close> is \<open>64 word\<close>, \<open>uint32_t\<close> is \<open>32 word\<close>, and
  arithmetic on them wraps as in C++.
\<close>

type_synonym bytes = "8 word list"

text \<open>OpenSSL handles (\<open>EVP_PKEY*\<close>, \<open>X509*\<close>) are opaque; a null pointer is \<open>None\<close>.\<close>

type_synonym EVP_PKEY = nat
type_synonym X509 = nat

datatype HashAlgorithm = SHA256 | MD5 | SHA1 | BLAKE2B | SHA3_256

datatype SignatureAlgorithm = RSA_PSS | ECDSA

datatype exn =
    runtime_error string
  | undefined_behaviour string

record Certificate =
  cert_subject :: string
  cert_issuer :: string
  cert_publicKey :: bytes
  cert_signature :: bytes
  cert_validFrom :: int
  cert_validUntil :: int

record SecureMessage =
  payload :: bytes
  signature :: bytes
  timestamp :: "64 word"
  sequenceNumber :: "32 word"
  senderCert :: bytes

record MessageHistory =
  hist_timestamp :: "64 word"
  hist_sequenceNumber :: "32 word"
  messageHash :: bytes

record CryptoModule =
  privateKey :: "EVP_PKEY option"
  publicKey :: "EVP_PKEY option"
  certificate :: "X509 option"
  messageHistory :: "MessageHistory list"

text \<open>
  What the module calls but does not define: the OpenSSL primitives, and
  \<open>CryptoModule::verifyCertificate\<close>, which the header declares and no source file
  defines. They are parameters of the model. \<open>None\<close> stands for a failing call
  (a return value \<open>\<le> 0\<close> or a null pointer).
\<close>

record library =
  EVP_PKEY_keygen :: "SignatureAlgorithm \<Rightarrow> EVP_PKEY option"
  EVP_Digest :: "HashAlgorithm \<Rightarrow> bytes \<Rightarrow> bytes"
  EVP_DigestSign :: "EVP_PKEY \<Rightarrow> bytes \<Rightarrow> bytes option"
  d2i_PUBKEY :: "bytes \<Rightarrow> EVP_PKEY option"
  EVP_DigestVerify :: "EVP_PKEY \<Rightarrow> bytes \<Rightarrow> bytes \<Rightarrow> bool"
  d2i_X509 :: "bytes \<Rightarrow> X509 option"
  i2d_X509 :: "X509 \<Rightarrow> bytes"
  verifyCertificate :: "Certificate \<Rightarrow> bool"

definition MAX_MESSAGE_HISTORY :: nat where
  "MAX_MESSAGE_HISTORY = 1000"

definition MESSAGE_TIMEOUT :: "64 word" where
  "MESSAGE_TIMEOUT = 5000"

definition CryptoModule_new :: CryptoModule where
  "CryptoModule_new =
     \<lparr>privateKey = None, publicKey = None, certificate = None, messageHistory = []\<rparr>"

text \<open>\<open>Certificate{}\<close> and \<open>SecureMessage{}\<close>: value-initialised aggregates.\<close>

definition Certificate_empty :: Certificate where
  "Certificate_empty =
     \<lparr>cert_subject = [], cert_issuer = [], cert_publicKey = [], cert_signature = [],
      cert_validFrom = 0, cert_validUntil = 0\<rparr>"

definition SecureMessage_empty :: SecureMessage where
  "SecureMessage_empty =
     \<lparr>payload = [], signature = [], timestamp = 0, sequenceNumber = 0, senderCert = []\<rparr>"

text \<open>The object representation of an integer, least significant byte first.\<close>

definition object_bytes :: "nat \<Rightarrow> 'a::len word \<Rightarrow> bytes" where
  "object_bytes n w = map (\<lambda>i. ucast (drop_bit (8 * i) w)) [0..<n]"

definition generateKeyPair ::
  "library \<Rightarrow> SignatureAlgorithm \<Rightarrow> CryptoModule \<Rightarrow> bool \<times> CryptoModule" where
  "generateKeyPair lib algo cm =
     (case EVP_PKEY_keygen lib algo of
        None \<Rightarrow> (False, cm)
      | Some key \<Rightarrow> (True, cm\<lparr>privateKey := Some key\<rparr>))"

definition hashMessage :: "library \<Rightarrow> bytes \<Rightarrow> HashAlgorithm \<Rightarrow> bytes" where
  "hashMessage lib message algo = EVP_Digest lib algo message"

definition signMessage :: "library \<Rightarrow> CryptoModule \<Rightarrow> bytes \<Rightarrow> exn + bytes" where
  "signMessage lib cm message =
     (case privateKey cm of
        None \<Rightarrow> Inl (runtime_error ''Private key not loaded'')
      | Some key \<Rightarrow>
          (case EVP_DigestSign lib key message of
             None \<Rightarrow> Inl (runtime_error ''Failed to create signature'')
           | Some sg \<Rightarrow> Inr sg))"

definition verifySignature :: "library \<Rightarrow> bytes \<Rightarrow> bytes \<Rightarrow> bytes \<Rightarrow> bool" where
  "verifySignature lib message sg pubKey =
     (case d2i_PUBKEY lib pubKey of
        None \<Rightarrow> False
      | Some key \<Rightarrow> EVP_DigestVerify lib key message sg)"

text \<open>
  \<open>createSecureMessage\<close> counts in \<open>static uint32_t sequence = 0\<close>, a variable of the
  function and so of the process: the model takes its current value and returns the new
  one beside the result. \<open>++sequence\<close> is evaluated before \<open>signMessage\<close> can throw.
  \<open>now\<close> is the clock reading in milliseconds, stored into the \<open>uint64_t\<close> field.
\<close>

definition createSecureMessage ::
  "library \<Rightarrow> 64 word \<Rightarrow> bytes \<Rightarrow> 32 word \<Rightarrow> CryptoModule \<Rightarrow> 32 word \<times> (exn + SecureMessage)" where
  "createSecureMessage lib now pl sequence cm =
     (let sequence' = sequence + 1;
          toSign = pl @ object_bytes 8 now @ object_bytes 4 sequence'
      in case signMessage lib cm toSign of
           Inl e \<Rightarrow> (sequence', Inl e)
         | Inr sg \<Rightarrow>
             (sequence',
              Inr \<lparr>payload = pl, signature = sg, timestamp = now, sequenceNumber = sequence',
                   senderCert =
                     (case certificate cm of
                        None \<Rightarrow> []
                      | Some c \<Rightarrow> if 0 < length (i2d_X509 lib c) then i2d_X509 lib c else [])\<rparr>))"

text \<open>
  \<open>now - timestamp\<close>: the clock's signed count is converted to \<open>uint64_t\<close> and the
  difference is taken modulo \<open>2^64\<close>, then compared unsigned.
\<close>

definition isValidTimestamp :: "64 word \<Rightarrow> 64 word \<Rightarrow> bool" where
  "isValidTimestamp now ts = (now - ts \<le> MESSAGE_TIMEOUT)"

definition isReplayMessage :: "CryptoModule \<Rightarrow> SecureMessage \<Rightarrow> bool" where
  "isReplayMessage cm message =
     list_ex (\<lambda>history. hist_timestamp history = timestamp message \<and>
                         hist_sequenceNumber history = sequenceNumber message)
       (messageHistory cm)"

text \<open>
  \<open>verifySecureMessage\<close> is a non-const member; the model returns the module beside the
  result, and the module it returns is the one it was given, since no statement of the
  body writes to a member.
\<close>

definition verifySecureMessage ::
  "library \<Rightarrow> 64 word \<Rightarrow> SecureMessage \<Rightarrow> CryptoModule \<Rightarrow> bool \<times> CryptoModule" where
  "verifySecureMessage lib now message cm =
     (if \<not> isValidTimestamp now (timestamp message) then (False, cm)
      else if isReplayMessage cm message then (False, cm)
      else if senderCert message \<noteq> [] \<and>
              (d2i_X509 lib (senderCert message) = None \<or>
               \<not> verifyCertificate lib Certificate_empty) then (False, cm)
      else (verifySignature lib
              (payload message @ object_bytes 8 (timestamp message)
                 @ object_bytes 4 (sequenceNumber message))
              (signature message) (senderCert message), cm))"

definition pruneMessageHistory :: "64 word \<Rightarrow> CryptoModule \<Rightarrow> CryptoModule" where
  "pruneMessageHistory now cm =
     cm\<lparr>messageHistory :=
          filter (\<lambda>history. \<not> (now - hist_timestamp history > MESSAGE_TIMEOUT))
            (messageHistory cm)\<rparr>"

definition updateMessageHistory ::
  "library \<Rightarrow> 64 word \<Rightarrow> SecureMessage \<Rightarrow> CryptoModule \<Rightarrow> CryptoModule" where
  "updateMessageHistory lib now message cm =
     (let history = \<lparr>hist_timestamp = timestamp message,
                     hist_sequenceNumber = sequenceNumber message,
                     messageHash = hashMessage lib (payload message) SHA256\<rparr>;
          cm' = cm\<lparr>messageHistory := messageHistory cm @ [history]\<rparr>
      in if length (messageHistory cm') > MAX_MESSAGE_HISTORY
         then pruneMessageHistory now cm' else cm')"


section \<open>The routing protocol (src/routing/secure-routing.cpp)\<close>

text \<open>
  A \<open>double\<close> is modelled as a real number: the model has the source's arithmetic
  without its rounding, so it says nothing exact about inputs that sit on a bound
  (an acceleration of exactly 10, a speed of exactly 200).

  A \<open>system_clock::time_point\<close> is its count of clock ticks since the epoch. The clock
  ticks in nanoseconds and counts in a signed 64-bit integer: the model keeps the count
  as a \<open>64 word\<close>, read by \<open>sint\<close>. Adding a duration to a time point and subtracting
  two time points is done on the 64-bit counts and wraps around, as the compiled code
  does; comparisons are signed. \<open>duration_cast\<close> to a coarser unit divides the count,
  truncating towards zero (\<open>sdiv\<close>).
\<close>

type_synonym time_point = "64 word"

definition ticks_per_second :: int where
  "ticks_per_second = 1000000000"

definition ticks_per_millisecond :: int where
  "ticks_per_millisecond = 1000000"

definition duration_cast_seconds :: "64 word \<Rightarrow> int" where
  "duration_cast_seconds d = sint d sdiv ticks_per_second"

definition duration_cast_milliseconds :: "64 word \<Rightarrow> int" where
  "duration_cast_milliseconds d = sint d sdiv ticks_per_millisecond"

text \<open>The crypto module's own clock reading: milliseconds since the epoch, as \<open>uint64_t\<close>.\<close>

definition now_ms :: "time_point \<Rightarrow> 64 word" where
  "now_ms now = word_of_int (duration_cast_milliseconds now)"

record Position =
  pos_x :: real
  pos_y :: real
  pos_z :: real
  pos_timestamp :: time_point

record VehicleInfo =
  vi_id :: string
  vi_position :: Position
  vi_speed :: real
  vi_direction :: real
  vi_trustScore :: real
  vi_certificate :: bytes

record RouteEntry =
  nextHop :: string
  hopCount :: "32 word"
  route_timestamp :: time_point
  route_trustScore :: real

datatype MessageType = HELLO | ROUTE_REQUEST | ROUTE_REPLY | ROUTE_ERROR | DATA

fun MessageType_value :: "MessageType \<Rightarrow> 8 word" where
  "MessageType_value HELLO = 0"
| "MessageType_value ROUTE_REQUEST = 1"
| "MessageType_value ROUTE_REPLY = 2"
| "MessageType_value ROUTE_ERROR = 3"
| "MessageType_value DATA = 4"

record MessageTracker =
  lastSequence :: "32 word"
  lastUpdate :: time_point

record SecureRoutingProtocol =
  vehicleId :: string
  localInfo :: VehicleInfo
  cryptoModule :: CryptoModule
  routingTable :: "string \<rightharpoonup> RouteEntry"
  neighborTable :: "string \<rightharpoonup> VehicleInfo"
  trustScores :: "string \<rightharpoonup> real"
  messageTracking :: "string \<rightharpoonup> MessageTracker"

text \<open>
  The process: the static counter of \<open>createSecureMessage\<close>, which every instance of
  the process shares, and the routing instance under study.
\<close>

record process =
  sequence :: "32 word"
  router :: SecureRoutingProtocol

definition MAX_TRUST_SCORE :: real where "MAX_TRUST_SCORE = 1.0"
definition MIN_TRUST_SCORE :: real where "MIN_TRUST_SCORE = 0.0"
definition TRUST_THRESHOLD :: real where "TRUST_THRESHOLD = 0.5"
definition MAX_SPEED :: real where "MAX_SPEED = 200.0"
definition MAX_ACCELERATION :: real where "MAX_ACCELERATION = 10.0"
definition ROUTE_TIMEOUT :: "64 word" where "ROUTE_TIMEOUT = 60 * 1000000000"
definition NEIGHBOR_TIMEOUT :: "64 word" where "NEIGHBOR_TIMEOUT = 10 * 1000000000"
definition MAX_HOP_COUNT :: "32 word" where "MAX_HOP_COUNT = 10"

text \<open>
  A default-initialised \<open>VehicleInfo\<close> has an empty id, an empty certificate and the
  epoch as time stamp; its \<open>double\<close> members are indeterminate. The model takes them
  from \<open>u\<close>, a parameter.
\<close>

definition VehicleInfo_default :: "VehicleInfo \<Rightarrow> VehicleInfo" where
  "VehicleInfo_default u =
     u\<lparr>vi_id := [], vi_position := (vi_position u)\<lparr>pos_timestamp := 0\<rparr>, vi_certificate := []\<rparr>"

definition SecureRoutingProtocol_new :: "VehicleInfo \<Rightarrow> string \<Rightarrow> SecureRoutingProtocol" where
  "SecureRoutingProtocol_new u ident =
     \<lparr>vehicleId = ident,
      localInfo = (VehicleInfo_default u)\<lparr>vi_id := ident, vi_trustScore := MAX_TRUST_SCORE\<rparr>,
      cryptoModule = CryptoModule_new,
      routingTable = Map.empty, neighborTable = Map.empty, trustScores = Map.empty,
      messageTracking = Map.empty\<rparr>"

definition calculateDistance :: "Position \<Rightarrow> Position \<Rightarrow> real" where
  "calculateDistance pos1 pos2 =
     (let dx = pos_x pos1 - pos_x pos2;
          dy = pos_y pos1 - pos_y pos2;
          dz = pos_z pos1 - pos_z pos2
      in sqrt (dx * dx + dy * dy + dz * dz))"

definition isValidMovement :: "Position \<Rightarrow> Position \<Rightarrow> real \<Rightarrow> bool" where
  "isValidMovement oldPos newPos timeElapsed =
     (if timeElapsed \<le> 0 then False
      else let distance = calculateDistance oldPos newPos;
               speed = distance / timeElapsed;
               speed = speed * 3.6
           in if speed > MAX_SPEED then False
              else let acceleration = speed / timeElapsed
                   in acceleration \<le> MAX_ACCELERATION)"

text \<open>
  The two erase loops of \<open>pruneExpiredEntries\<close> visit every entry of a \<open>std::map\<close>
  once and erase those that satisfy the test.
\<close>

definition erase_if :: "('v \<Rightarrow> bool) \<Rightarrow> ('k \<rightharpoonup> 'v) \<Rightarrow> ('k \<rightharpoonup> 'v)" where
  "erase_if expired m =
     (\<lambda>k. case m k of None \<Rightarrow> None | Some v \<Rightarrow> if expired v then None else Some v)"

definition pruneExpiredEntries :: "time_point \<Rightarrow> SecureRoutingProtocol \<Rightarrow> SecureRoutingProtocol" where
  "pruneExpiredEntries now p =
     p\<lparr>routingTable :=
         erase_if (\<lambda>e. sint (route_timestamp e + ROUTE_TIMEOUT) < sint now) (routingTable p),
       neighborTable :=
         erase_if (\<lambda>v. sint (pos_timestamp (vi_position v) + NEIGHBOR_TIMEOUT) < sint now)
           (neighborTable p)\<rparr>"

definition initializeVehicle ::
  "library \<Rightarrow> VehicleInfo \<Rightarrow> SecureRoutingProtocol \<Rightarrow> bool \<times> SecureRoutingProtocol" where
  "initializeVehicle lib info p =
     (if vi_id info \<noteq> vehicleId p then (False, p)
      else let p' = p\<lparr>localInfo := info\<rparr>;
               r = generateKeyPair lib ECDSA (cryptoModule p')
           in (fst r, p'\<lparr>cryptoModule := snd r\<rparr>))"

definition updatePosition ::
  "time_point \<Rightarrow> Position \<Rightarrow> SecureRoutingProtocol \<Rightarrow> bool \<times> SecureRoutingProtocol" where
  "updatePosition now newPos p =
     (if \<not> isValidMovement (vi_position (localInfo p)) newPos
            (of_int (duration_cast_seconds
               (pos_timestamp newPos - pos_timestamp (vi_position (localInfo p)))))
      then (False, p)
      else (True, pruneExpiredEntries now
                    (p\<lparr>localInfo := (localInfo p)\<lparr>vi_position := newPos\<rparr>\<rparr>)))"

definition createRoutingMessage ::
  "time_point \<Rightarrow> MessageType \<Rightarrow> string \<Rightarrow> SecureRoutingProtocol \<Rightarrow> bytes" where
  "createRoutingMessage now type destination p =
     [MessageType_value type]
       @ map of_char (vehicleId p) @ [0]
       @ map of_char destination @ [0]
       @ object_bytes 8 (now_ms now)"

definition updateRoute ::
  "time_point \<Rightarrow> string \<Rightarrow> RouteEntry \<Rightarrow> SecureRoutingProtocol \<Rightarrow> bool \<times> SecureRoutingProtocol" where
  "updateRoute now destination entry p =
     (if hopCount entry \<ge> MAX_HOP_COUNT then (False, p)
      else if sint (route_timestamp entry + ROUTE_TIMEOUT) < sint now then (False, p)
      else (True, p\<lparr>routingTable := (routingTable p)(destination \<mapsto> entry)\<rparr>))"


subsection \<open>Trust\<close>

definition detectBlackHole :: "SecureRoutingProtocol \<Rightarrow> string \<Rightarrow> bool" where
  "detectBlackHole p suspectId = False"

definition detectSybil :: "SecureRoutingProtocol \<Rightarrow> string \<Rightarrow> bool" where
  "detectSybil p suspectId = False"

definition detectPositionFalsification ::
  "SecureRoutingProtocol \<Rightarrow> string \<Rightarrow> Position \<Rightarrow> bool" where
  "detectPositionFalsification p ident reportedPos =
     (case neighborTable p ident of
        None \<Rightarrow> False
      | Some n \<Rightarrow>
          (let lastPos = vi_position n;
               timeElapsed = of_int (duration_cast_seconds
                                (pos_timestamp reportedPos - pos_timestamp lastPos))
           in \<not> isValidMovement lastPos reportedPos timeElapsed))"

text \<open>\<open>std::clamp(v, lo, hi)\<close>.\<close>

definition clamp :: "real \<Rightarrow> real \<Rightarrow> real \<Rightarrow> real" where
  "clamp v lo hi = (if v < lo then lo else if hi < v then hi else v)"

definition calculateTrust :: "SecureRoutingProtocol \<Rightarrow> string \<Rightarrow> real" where
  "calculateTrust p ident =
     (case trustScores p ident of
        None \<Rightarrow> MIN_TRUST_SCORE
      | Some stored \<Rightarrow>
          (let score = stored;
               score = (if detectBlackHole p ident \<or> detectSybil p ident
                        then score * 0.5 else score);
               score = (case neighborTable p ident of
                          None \<Rightarrow> score
                        | Some n \<Rightarrow>
                            if detectPositionFalsification p ident (vi_position n)
                            then score * 0.5 else score)
           in clamp score MIN_TRUST_SCORE MAX_TRUST_SCORE))"

text \<open>\<open>trustScores[vehicleId]\<close> reads 0.0 for an id the map does not hold yet.\<close>

definition updateTrustScore ::
  "string \<Rightarrow> real \<Rightarrow> SecureRoutingProtocol \<Rightarrow> SecureRoutingProtocol" where
  "updateTrustScore ident score p =
     (let currentScore = (case trustScores p ident of None \<Rightarrow> 0 | Some c \<Rightarrow> c);
          alpha = 0.3
      in p\<lparr>trustScores := (trustScores p)(ident \<mapsto> (alpha * score) + ((1 - alpha) * currentScore))\<rparr>)"

definition isVehicleTrusted :: "SecureRoutingProtocol \<Rightarrow> string \<Rightarrow> bool" where
  "isVehicleTrusted p ident = (calculateTrust p ident \<ge> TRUST_THRESHOLD)"

definition detectReplay :: "SecureRoutingProtocol \<Rightarrow> bytes \<Rightarrow> bool" where
  "detectReplay p message = isReplayMessage (cryptoModule p) SecureMessage_empty"

subsection \<open>Operations that create secure messages\<close>

text \<open>
  These run \<open>createSecureMessage\<close> on the instance's crypto module, which advances the
  static counter and throws when the module has no private key or signing fails. A
  result \<open>Inl e\<close> is the exception leaving the operation; the process beside it is the
  state at that moment. The messages themselves go nowhere: the source builds them and
  drops them.
\<close>

definition secure ::
  "library \<Rightarrow> time_point \<Rightarrow> bytes \<Rightarrow> process \<Rightarrow> (exn + SecureMessage) \<times> process" where
  "secure lib now message w =
     (let r = createSecureMessage lib (now_ms now) message (sequence w) (cryptoModule (router w))
      in (snd r, w\<lparr>sequence := fst r\<rparr>))"

definition findRoute ::
  "library \<Rightarrow> time_point \<Rightarrow> string \<Rightarrow> process \<Rightarrow> (exn + bool) \<times> process" where
  "findRoute lib now destination w =
     (let rreq = createRoutingMessage now ROUTE_REQUEST destination (router w)
      in case secure lib now rreq w of
           (Inl e, w') \<Rightarrow> (Inl e, w')
         | (Inr secureRreq, w') \<Rightarrow> (Inr True, w'))"

definition invalidateRoute ::
  "library \<Rightarrow> time_point \<Rightarrow> string \<Rightarrow> process \<Rightarrow> (exn + bool) \<times> process" where
  "invalidateRoute lib now destination w =
     (case routingTable (router w) destination of
        None \<Rightarrow> (Inr False, w)
      | Some found \<Rightarrow>
          (let w1 = w\<lparr>router := (router w)\<lparr>routingTable := (routingTable (router w))(destination := None)\<rparr>\<rparr>;
               rerr = createRoutingMessage now ROUTE_ERROR destination (router w1)
           in case secure lib now rerr w1 of
                (Inl e, w2) \<Rightarrow> (Inl e, w2)
              | (Inr secureRerr, w2) \<Rightarrow> (Inr True, w2)))"

text \<open>\<open>sendData\<close> from the trust check on, with the entry \<open>routeIt\<close> points to.\<close>

definition sendData_via ::
  "library \<Rightarrow> time_point \<Rightarrow> string \<Rightarrow> bytes \<Rightarrow> RouteEntry \<Rightarrow> process \<Rightarrow> (exn + bool) \<times> process" where
  "sendData_via lib now destination dat entry w =
     (if \<not> isVehicleTrusted (router w) (nextHop entry)
      then (case invalidateRoute lib now destination w of
              (Inl e, w') \<Rightarrow> (Inl e, w')
            | (Inr invalidated, w') \<Rightarrow> (Inr False, w'))
      else (let message = createRoutingMessage now DATA destination (router w) @ dat
            in case secure lib now message w of
                 (Inl e, w') \<Rightarrow> (Inl e, w')
               | (Inr secureMessage, w') \<Rightarrow> (Inr True, w')))"

text \<open>
  When the table has no entry, \<open>sendData\<close> calls \<open>findRoute\<close> and looks the
  destination up again. The source then reads \<open>routeIt->second\<close> without comparing
  \<open>routeIt\<close> with \<open>routingTable.end()\<close>: with no entry this dereferences the end
  iterator, which the model records as undefined behaviour.
\<close>

definition sendData ::
  "library \<Rightarrow> time_point \<Rightarrow> string \<Rightarrow> bytes \<Rightarrow> process \<Rightarrow> (exn + bool) \<times> process" where
  "sendData lib now destination dat w =
     (case routingTable (router w) destination of
        Some entry \<Rightarrow> sendData_via lib now destination dat entry w
      | None \<Rightarrow>
          (case findRoute lib now destination w of
             (Inl e, w1) \<Rightarrow> (Inl e, w1)
           | (Inr found, w1) \<Rightarrow>
               if \<not> found then (Inr False, w1)
               else (case routingTable (router w1) destination of
                       None \<Rightarrow> (Inl (undefined_behaviour ''routeIt->second at routingTable.end()''), w1)
                     | Some entry \<Rightarrow> sendData_via lib now destination dat entry w1)))"

definition sendBeacon :: "library \<Rightarrow> time_point \<Rightarrow> process \<Rightarrow> (exn + unit) \<times> process" where
  "sendBeacon lib now w =
     (let beacon = createRoutingMessage now HELLO [] (router w)
      in case secure lib now beacon w of
           (Inl e, w') \<Rightarrow> (Inl e, w')
         | (Inr secureBeacon, w') \<Rightarrow> (Inr (), w'))"

subsection \<open>Receiving\<close>

text \<open>
  Both \<open>verifyRoutingMessage\<close> and \<open>processBeacon\<close> verify \<open>SecureMessage{}\<close>, the
  empty message, whatever bytes they were given. \<open>processBeacon\<close> parses nothing:
  \<open>info\<close> stays default-initialised (\<open>u\<close> gives its indeterminate members).
\<close>

definition verifyRoutingMessage ::
  "library \<Rightarrow> time_point \<Rightarrow> bytes \<Rightarrow> SecureRoutingProtocol \<Rightarrow> bool \<times> SecureRoutingProtocol" where
  "verifyRoutingMessage lib now message p =
     (case message of
        [] \<Rightarrow> (False, p)
      | type # rest \<Rightarrow>
          if type > MessageType_value DATA then (False, p)
          else (let r = verifySecureMessage lib (now_ms now) SecureMessage_empty (cryptoModule p)
                in (fst r, p\<lparr>cryptoModule := snd r\<rparr>)))"

definition processBeacon ::
  "library \<Rightarrow> time_point \<Rightarrow> VehicleInfo \<Rightarrow> bytes \<Rightarrow> SecureRoutingProtocol
     \<Rightarrow> bool \<times> SecureRoutingProtocol" where
  "processBeacon lib now u beacon p =
     (let info = VehicleInfo_default u;
          r = verifySecureMessage lib (now_ms now) SecureMessage_empty (cryptoModule p);
          p0 = p\<lparr>cryptoModule := snd r\<rparr>
      in if \<not> fst r then (False, p0)
         else (let p1 = p0\<lparr>neighborTable := (neighborTable p0)(vi_id info \<mapsto> info)\<rparr>
               in (True, updateTrustScore (vi_id info) 1.0 p1)))"

text \<open>
  \<open>message[0]\<close> is read after \<open>verifyRoutingMessage\<close> has returned true, which it
  never does for an empty vector. Of the five types only HELLO has a handler.
\<close>

definition receiveMessage ::
  "library \<Rightarrow> time_point \<Rightarrow> VehicleInfo \<Rightarrow> bytes \<Rightarrow> SecureRoutingProtocol
     \<Rightarrow> bool \<times> SecureRoutingProtocol" where
  "receiveMessage lib now u message p =
     (let v = verifyRoutingMessage lib now message p
      in if \<not> fst v then (False, snd v)
         else (case message of
                 [] \<Rightarrow> (True, snd v)
               | type # rest \<Rightarrow>
                   if type = MessageType_value HELLO
                   then processBeacon lib now u message (snd v)
                   else (True, snd v)))"


subsection \<open>Reachable states of a routing instance\<close>

text \<open>
  The public member functions of \<open>SecureRoutingProtocol\<close>, as calls. What a call
  reads from outside the instance is its environment: the library, the clock and the
  indeterminate values of a default-initialised \<open>VehicleInfo\<close>.
\<close>

datatype call =
    InitializeVehicle VehicleInfo
  | UpdatePosition Position
  | SendData string bytes
  | ReceiveMessage bytes
  | FindRoute string
  | UpdateRoute string RouteEntry
  | InvalidateRoute string
  | CalculateTrust string
  | UpdateTrustScore string real
  | IsVehicleTrusted string
  | SendBeacon
  | ProcessBeacon bytes
  | DetectBlackHole string
  | DetectSybil string
  | DetectReplay bytes
  | DetectPositionFalsification string Position

record environment =
  env_lib :: library
  env_now :: time_point
  env_indeterminate :: VehicleInfo

text \<open>
  The state a call leaves behind: the state at the return or at the throw; none after
  undefined behaviour.
\<close>

definition settle :: "(exn + 'a) \<times> process \<Rightarrow> process option" where
  "settle r =
     (case fst r of
        Inl (undefined_behaviour what) \<Rightarrow> None
      | Inl (runtime_error what) \<Rightarrow> Some (snd r)
      | Inr v \<Rightarrow> Some (snd r))"

fun run :: "environment \<Rightarrow> call \<Rightarrow> process \<Rightarrow> process option" where
  "run e (InitializeVehicle info) w =
     Some (w\<lparr>router := snd (initializeVehicle (env_lib e) info (router w))\<rparr>)"
| "run e (UpdatePosition newPos) w =
     Some (w\<lparr>router := snd (updatePosition (env_now e) newPos (router w))\<rparr>)"
| "run e (SendData destination dat) w = settle (sendData (env_lib e) (env_now e) destination dat w)"
| "run e (ReceiveMessage message) w =
     Some (w\<lparr>router := snd (receiveMessage (env_lib e) (env_now e) (env_indeterminate e) message (router w))\<rparr>)"
| "run e (FindRoute destination) w = settle (findRoute (env_lib e) (env_now e) destination w)"
| "run e (UpdateRoute destination entry) w =
     Some (w\<lparr>router := snd (updateRoute (env_now e) destination entry (router w))\<rparr>)"
| "run e (InvalidateRoute destination) w = settle (invalidateRoute (env_lib e) (env_now e) destination w)"
| "run e (CalculateTrust ident) w = Some w"
| "run e (UpdateTrustScore ident score) w = Some (w\<lparr>router := updateTrustScore ident score (router w)\<rparr>)"
| "run e (IsVehicleTrusted ident) w = Some w"
| "run e SendBeacon w = settle (sendBeacon (env_lib e) (env_now e) w)"
| "run e (ProcessBeacon beacon) w =
     Some (w\<lparr>router := snd (processBeacon (env_lib e) (env_now e) (env_indeterminate e) beacon (router w))\<rparr>)"
| "run e (DetectBlackHole ident) w = Some w"
| "run e (DetectSybil ident) w = Some w"
| "run e (DetectReplay message) w = Some w"
| "run e (DetectPositionFalsification ident reportedPos) w = Some w"

text \<open>
  The states of a process in which the instance with id \<open>ident\<close> lives: construction,
  with the static counter at any value (other instances may have counted before); a
  call on the instance; a secure message created by another instance of the process.
\<close>

inductive reachable :: "string \<Rightarrow> process \<Rightarrow> bool" for ident :: string where
  constructed: "reachable ident \<lparr>sequence = n, router = SecureRoutingProtocol_new u ident\<rparr>"
| called: "reachable ident w \<Longrightarrow> run e c w = Some w' \<Longrightarrow> reachable ident w'"
| elsewhere: "reachable ident w \<Longrightarrow> reachable ident (w\<lparr>sequence := sequence w + 1\<rparr>)"


section \<open>Test fixtures\<close>

text \<open>
  A library for concrete runs: key generation succeeds, the parsers accept every buffer
  but the empty one, the signature of a message is the message, and verification
  compares the two.
\<close>

definition toy_library :: library where
  "toy_library =
     \<lparr>EVP_PKEY_keygen = (\<lambda>algo. Some 1),
      EVP_Digest = (\<lambda>algo message. message),
      EVP_DigestSign = (\<lambda>key message. Some message),
      d2i_PUBKEY = (\<lambda>der. if der = [] then None else Some 1),
      EVP_DigestVerify = (\<lambda>key message sg. sg = message),
      d2i_X509 = (\<lambda>der. if der = [] then None else Some 1),
      i2d_X509 = (\<lambda>c. [1]),
      verifyCertificate = (\<lambda>c. True)\<rparr>"

text \<open>The crypto module of \<open>testCryptoModule\<close> in tests/main.cpp, and its message.\<close>

definition keyed :: CryptoModule where
  "keyed = snd (generateKeyPair toy_library ECDSA CryptoModule_new)"

definition test_payload :: bytes where
  "test_payload = [116, 101, 115, 116]"

definition sent :: SecureMessage where
  "sent = \<lparr>payload = test_payload,
           signature = test_payload @ object_bytes 8 (1700000000000 :: 64 word)
                         @ object_bytes 4 (1 :: 32 word),
           timestamp = 1700000000000, sequenceNumber = 1, senderCert = []\<rparr>"

text \<open>The router of \<open>testSecureRouting\<close>, initialised at the origin.\<close>

definition origin :: Position where
  "origin = \<lparr>pos_x = 0, pos_y = 0, pos_z = 0, pos_timestamp = 1700000000000000000\<rparr>"

definition test_info :: VehicleInfo where
  "test_info = \<lparr>vi_id = ''test_vehicle'', vi_position = origin, vi_speed = 50, vi_direction = 0,
                 vi_trustScore = 1, vi_certificate = []\<rparr>"

definition test_router :: SecureRoutingProtocol where
  "test_router = snd (initializeVehicle toy_library test_info
                        (SecureRoutingProtocol_new test_info ''test_vehicle''))"



definition five_metres_on :: Position where
  "five_metres_on = \<lparr>pos_x = 5, pos_y = 0, pos_z = 0, pos_timestamp = 1700000001000000000\<rparr>"

text \<open>An environment for concrete calls, a route as in \<open>testSecureRouting\<close>, and states.\<close>

definition test_environment :: environment where
  "test_environment = \<lparr>env_lib = toy_library, env_now = 1700000000000000000,
                         env_indeterminate = test_info\<rparr>"

definition test_entry :: RouteEntry where
  "test_entry = \<lparr>nextHop = ''neighbor1'', hopCount = 1,
                  route_timestamp = 1700000000000000000, route_trustScore = 1\<rparr>"


definition test_process :: process where
  "test_process = \<lparr>sequence = 0, router = test_router\<rparr>"

definition routed :: process where
  "routed = \<lparr>sequence = 0,
             router = snd (updateRoute 1700000000000000000 ''destination1'' test_entry test_router)\<rparr>"


section \<open>Auxiliary predicates\<close>

text \<open>Every record of the replay cache passes the age test of \<open>pruneMessageHistory\<close>.\<close>

definition fresh_records :: "64 word \<Rightarrow> CryptoModule \<Rightarrow> bool" where
  "fresh_records now cm =
     list_all (\<lambda>h. now - hist_timestamp h \<le> MESSAGE_TIMEOUT) (messageHistory cm)"

text \<open>
  Movement plausibility in the specification's words, for comparison with
  \<open>isValidMovement\<close>: the speed in km/h against \<open>MAX_SPEED\<close>, and the change of the
  speed in m/s over the elapsed time against \<open>MAX_ACCELERATION\<close>.
\<close>

definition spec_movement_plausible :: "Position \<Rightarrow> Position \<Rightarrow> real \<Rightarrow> real \<Rightarrow> bool" where
  "spec_movement_plausible p1 p2 dt v_prev =
     (dt > 0 \<and>
      (let d = calculateDistance p1 p2; v = d / dt
       in v * 3.6 \<le> MAX_SPEED \<and> \<bar>v - v_prev\<bar> / dt \<le> MAX_ACCELERATION))"

text \<open>The bound on the hop counts of the routing table.\<close>

definition hop_bounded :: "SecureRoutingProtocol \<Rightarrow> bool" where
  "hop_bounded p = (\<forall>d r. routingTable p d = Some r \<longrightarrow> hopCount r < MAX_HOP_COUNT)"

section \<open>The fixtures, evaluated\<close>

lemma keyed_eq:
  "keyed = \<lparr>privateKey = Some 1, publicKey = None, certificate = None, messageHistory = []\<rparr>"
  by (simp add: keyed_def generateKeyPair_def toy_library_def CryptoModule_new_def)

lemma created_sent:
  "createSecureMessage toy_library 1700000000000 test_payload 0 keyed = (1, Inr sent)"
  by (simp add: createSecureMessage_def signMessage_def keyed_eq sent_def toy_library_def)

lemma test_router_eq:
  "test_router =
     \<lparr>vehicleId = ''test_vehicle'', localInfo = test_info,
      cryptoModule = \<lparr>privateKey = Some 1, publicKey = None, certificate = None,
                      messageHistory = []\<rparr>,
      routingTable = Map.empty, neighborTable = Map.empty, trustScores = Map.empty,
      messageTracking = Map.empty\<rparr>"
  by (simp add: test_router_def initializeVehicle_def SecureRoutingProtocol_new_def
      generateKeyPair_def toy_library_def CryptoModule_new_def test_info_def)

section \<open>Freshness\<close>

lemma isValidTimestamp_past:
  "ts \<le> now \<Longrightarrow> isValidTimestamp now ts \<longleftrightarrow> unat now - unat ts \<le> 5000"
  by (simp add: isValidTimestamp_def MESSAGE_TIMEOUT_def word_le_nat_alt unat_sub)

lemma isValidTimestamp_future:
  assumes "now < ts" and "unat ts - unat now < 2 ^ 64 - 5000"
  shows "\<not> isValidTimestamp now ts"
proof -
  have lt: "unat now < unat ts"
    using assms(1) by (simp add: word_less_nat_alt)
  have bd: "unat ts < 2 ^ 64"
    using unsigned_less [of ts, where 'a = nat] by simp
  have "unat (now - ts) = 2 ^ 64 + unat now - unat ts"
    using lt by (simp add: unat_sub_if')
  then have "5000 < unat (now - ts)"
    using assms(2) lt bd by simp
  then show ?thesis
    by (simp add: isValidTimestamp_def MESSAGE_TIMEOUT_def word_le_nat_alt)
qed

text \<open>
  C4, as stated, fails: a time stamp one millisecond in the future has
  \<open>|now - timestamp| = 1 \<le> MESSAGE_TIMEOUT\<close> and is rejected.
\<close>

theorem isValidTimestamp_future_counterexample:
  "\<bar>uint (1700000000000 :: 64 word) - uint (1700000000001 :: 64 word)\<bar> \<le> uint MESSAGE_TIMEOUT
   \<and> \<not> isValidTimestamp 1700000000000 1700000000001"
proof -
  have "\<not> isValidTimestamp 1700000000000 1700000000001"
    unfolding isValidTimestamp_def MESSAGE_TIMEOUT_def by code_simp
  then show ?thesis
    by (simp add: MESSAGE_TIMEOUT_def)
qed

text \<open>
  C4, amended: the freshness check accepts exactly when the unsigned 64-bit difference
  \<open>now - timestamp\<close> is at most \<open>MESSAGE_TIMEOUT\<close> (5000 ms). A time stamp exactly
  5000 ms in the past is accepted and one of 5001 ms in the past is rejected; for a
  time stamp not after \<open>now\<close> the check is \<open>now - timestamp \<le> 5000\<close>; a time stamp
  in the future is rejected (the difference wraps around to a large number), whenever
  it is less than \<open>2^64 - 5000\<close> ms ahead.
\<close>

theorem isValidTimestamp_window:
  "isValidTimestamp now (now - 5000) \<and>
   \<not> isValidTimestamp now (now - 5001) \<and>
   (ts \<le> now \<longrightarrow> (isValidTimestamp now ts \<longleftrightarrow> unat now - unat ts \<le> 5000)) \<and>
   (now < ts \<and> unat ts - unat now < 2 ^ 64 - 5000 \<longrightarrow> \<not> isValidTimestamp now ts)"
proof -
  have "isValidTimestamp now (now - 5000)"
    by (simp add: isValidTimestamp_def MESSAGE_TIMEOUT_def)
  moreover have "\<not> isValidTimestamp now (now - 5001)"
    by (simp add: isValidTimestamp_def MESSAGE_TIMEOUT_def)
  ultimately show ?thesis
    using isValidTimestamp_past isValidTimestamp_future by blast
qed

theorem isValidTimestamp_window_witness:
  "(1699999995000 :: 64 word) \<le> 1700000000000 \<and>
   isValidTimestamp 1700000000000 1699999995000 \<and>
   (1700000000000 :: 64 word) < 1700000005000 \<and>
   \<not> isValidTimestamp 1700000000000 1700000005000"
  using isValidTimestamp_window [where now = 1700000000000 and ts = 1699999995000]
    isValidTimestamp_window [where now = 1700000000000 and ts = 1700000005000]
  by simp


section \<open>The replay cache\<close>

lemma verifySecureMessage_keeps_module: "snd (verifySecureMessage lib now m cm) = cm"
  by (simp add: verifySecureMessage_def)

text \<open>
  No statement of \<open>verifySecureMessage\<close> reaches \<open>updateMessageHistory\<close>: the module,
  and with it the replay cache, is the same after the call. So a call that accepts a
  message finds no record of it afterwards, and a second call at the same clock reading
  accepts it again.
\<close>

lemma verifySecureMessage_accepted_again:
  assumes "fst (verifySecureMessage lib now m cm)"
  shows "\<not> isReplayMessage (snd (verifySecureMessage lib now m cm)) m \<and>
         fst (verifySecureMessage lib now m (snd (verifySecureMessage lib now m cm)))"
proof -
  have "\<not> isReplayMessage cm m"
    using assms by (auto simp: verifySecureMessage_def split: if_splits)
  then show ?thesis
    using assms by (simp add: verifySecureMessage_keeps_module)
qed

text \<open>
  \<open>verifySecureMessage\<close> hands \<open>senderCert\<close> to \<open>verifySignature\<close> as the public key.
  Where \<open>d2i_PUBKEY\<close> does not parse the empty buffer, a message without certificate is
  never accepted.
\<close>

lemma verifySecureMessage_without_certificate:
  "d2i_PUBKEY lib [] = None \<Longrightarrow> senderCert m = [] \<Longrightarrow>
   \<not> fst (verifySecureMessage lib now m cm)"
  by (simp add: verifySecureMessage_def verifySignature_def)

lemma pruneMessageHistory_fresh: "fresh_records now cm \<Longrightarrow> pruneMessageHistory now cm = cm"
  by (simp add: fresh_records_def pruneMessageHistory_def list_all_iff not_less [symmetric]
      del: not_less)

lemma updateMessageHistory_fresh:
  assumes "fresh_records now cm" and "timestamp m = now"
  shows "fresh_records now (updateMessageHistory lib now m cm) \<and>
         length (messageHistory (updateMessageHistory lib now m cm))
           = Suc (length (messageHistory cm))"
proof -
  let ?cm' = "cm\<lparr>messageHistory := messageHistory cm @
     [\<lparr>hist_timestamp = timestamp m, hist_sequenceNumber = sequenceNumber m,
       messageHash = hashMessage lib (payload m) SHA256\<rparr>]\<rparr>"
  have f: "fresh_records now ?cm'"
    using assms by (simp add: fresh_records_def MESSAGE_TIMEOUT_def)
  have "updateMessageHistory lib now m cm = ?cm'"
    using pruneMessageHistory_fresh [OF f] by (simp add: updateMessageHistory_def Let_def)
  then show ?thesis
    using f by simp
qed

lemma updateMessageHistory_repeated:
  "fresh_records now cm \<Longrightarrow> timestamp m = now \<Longrightarrow>
   fresh_records now ((updateMessageHistory lib now m ^^ n) cm) \<and>
   length (messageHistory ((updateMessageHistory lib now m ^^ n) cm))
     = n + length (messageHistory cm)"
  by (induction n) (simp_all add: updateMessageHistory_fresh)

lemma updateMessageHistory_bound_or_fresh:
  "length (messageHistory (updateMessageHistory lib now m cm)) \<le> MAX_MESSAGE_HISTORY \<or>
   fresh_records now (updateMessageHistory lib now m cm)"
  by (simp add: updateMessageHistory_def Let_def pruneMessageHistory_def fresh_records_def
      list_all_iff not_less [symmetric] del: not_less)

text \<open>
  C5 fails on the code: \<open>pruneMessageHistory\<close> removes by age only. 1001 insertions
  of a message whose time stamp is the current time leave 1001 records in a cache that
  was empty, one more than \<open>MAX_MESSAGE_HISTORY\<close>.
\<close>

theorem replay_cache_exceeds_maximum:
  "length (messageHistory
      ((updateMessageHistory lib 1700000000000 sent ^^ 1001) CryptoModule_new)) = 1001
   \<and> MAX_MESSAGE_HISTORY < 1001"
proof -
  have "fresh_records 1700000000000 CryptoModule_new"
    by (simp add: fresh_records_def CryptoModule_new_def)
  moreover have "timestamp sent = 1700000000000"
    by (simp add: sent_def)
  ultimately show ?thesis
    using updateMessageHistory_repeated
      [where now = 1700000000000 and cm = CryptoModule_new and m = sent and lib = lib and n = 1001]
    by (simp add: CryptoModule_new_def MAX_MESSAGE_HISTORY_def)
qed

section \<open>Sequence numbers\<close>

text \<open>
  C7, as stated, fails: with the static counter at its initial value 0, the first message
  of a module that has just generated its key carries sequence number 1, not 0; and the
  first message of a second module, created next, carries 2: the two do not count
  independently.
\<close>

theorem createSecureMessage_first_counterexample:
  "map_sum id sequenceNumber
     (snd (createSecureMessage toy_library 1700000000000 test_payload 0 keyed)) = Inr 1 \<and>
   map_sum id sequenceNumber
     (snd (createSecureMessage toy_library 1700000000000 test_payload 0 keyed)) \<noteq> Inr 0 \<and>
   map_sum id sequenceNumber
     (snd (createSecureMessage toy_library 1700000000000 test_payload
        (fst (createSecureMessage toy_library 1700000000000 test_payload 0 keyed))
        (snd (generateKeyPair toy_library ECDSA CryptoModule_new)))) = Inr 2"
  by (simp add: created_sent sent_def)
    (simp add: createSecureMessage_def signMessage_def generateKeyPair_def toy_library_def
      CryptoModule_new_def)

text \<open>
  C7, amended: \<open>createSecureMessage\<close> assigns sequence numbers from one counter, static
  to the function and so shared by every instance of the process, which starts at 0 and
  is incremented before it is read. A call that finds the counter at \<open>n\<close> leaves it at
  \<open>n + 1\<close> (also when signing throws) and a message it returns carries \<open>n + 1\<close>; the
  next call, on the same or on any other instance, returns a message that carries
  \<open>n + 2\<close>. The arithmetic is that of \<open>uint32_t\<close>: after \<open>2^32 - 1\<close> comes 0.
\<close>

theorem createSecureMessage_sequence:
  "fst (createSecureMessage lib now pl n cm) = n + 1 \<and>
   (\<forall>m. snd (createSecureMessage lib now pl n cm) = Inr m \<longrightarrow> sequenceNumber m = n + 1) \<and>
   (\<forall>m. snd (createSecureMessage lib now' pl' (fst (createSecureMessage lib now pl n cm)) cm')
           = Inr m \<longrightarrow> sequenceNumber m = n + 2) \<and>
   fst (createSecureMessage lib now pl 4294967295 cm) = 0"
  by (auto simp: createSecureMessage_def Let_def split: sum.splits)

theorem createSecureMessage_sequence_witness:
  "snd (createSecureMessage toy_library 1700000000000 test_payload 0 keyed) = Inr sent \<and>
   sequenceNumber sent = 0 + 1 \<and>
   snd (createSecureMessage toy_library 1700000000000 test_payload
          (fst (createSecureMessage toy_library 1700000000000 test_payload 0 keyed)) keyed)
     = Inr (sent\<lparr>signature := test_payload @ object_bytes 8 (1700000000000 :: 64 word)
                                  @ object_bytes 4 (2 :: 32 word),
                  sequenceNumber := 2\<rparr>) \<and>
   sequenceNumber (sent\<lparr>signature := test_payload @ object_bytes 8 (1700000000000 :: 64 word)
                                        @ object_bytes 4 (2 :: 32 word),
                        sequenceNumber := 2\<rparr>) = 0 + 2"
proof -
  have second:
    "snd (createSecureMessage toy_library 1700000000000 test_payload
            (fst (createSecureMessage toy_library 1700000000000 test_payload 0 keyed)) keyed)
       = Inr (sent\<lparr>signature := test_payload @ object_bytes 8 (1700000000000 :: 64 word)
                                    @ object_bytes 4 (2 :: 32 word),
                    sequenceNumber := 2\<rparr>)"
    by (simp add: created_sent)
      (simp add: createSecureMessage_def signMessage_def keyed_eq sent_def toy_library_def)
  show ?thesis
    using createSecureMessage_sequence
      [where lib = toy_library and now = 1700000000000 and pl = test_payload and n = 0
         and cm = keyed and now' = 1700000000000 and pl' = test_payload and cm' = keyed]
      created_sent second
    by simp
qed


section \<open>Movement\<close>







lemma distance_origin_five_metres_on: "calculateDistance origin five_metres_on = 5"
proof -
  have "sqrt 25 = (5 :: real)"
    by (rule real_sqrt_unique) simp_all
  then show ?thesis
    by (simp add: calculateDistance_def origin_def five_metres_on_def)
qed

text \<open>
  C6 fails on the code: \<open>isValidMovement\<close> takes no previous speed and divides the
  speed in km/h by the elapsed time. Five metres in one second from rest is 18 km/h
  and 5 metres per second squared, plausible by the claim; the code computes 18 and rejects.
\<close>

theorem isValidMovement_rejects_plausible:
  "spec_movement_plausible origin five_metres_on 1 0 \<and>
   \<not> isValidMovement origin five_metres_on 1"
  by (simp add: spec_movement_plausible_def isValidMovement_def distance_origin_five_metres_on
      MAX_SPEED_def MAX_ACCELERATION_def)


section \<open>The routing table\<close>

lemma hop_bounded_le: "hop_bounded p \<Longrightarrow> routingTable p' \<subseteq>\<^sub>m routingTable p \<Longrightarrow> hop_bounded p'"
  unfolding hop_bounded_def map_le_def by (metis domI)

lemma erase_if_le: "erase_if t m \<subseteq>\<^sub>m m"
  by (auto simp: erase_if_def map_le_def split: option.splits if_splits)

lemma secure_router: "router (snd (secure lib now msg w)) = router w"
  by (simp add: secure_def Let_def)

lemma findRoute_router: "router (snd (findRoute lib now d w)) = router w"
  using secure_router[of lib now "createRoutingMessage now ROUTE_REQUEST d (router w)" w]
  by (auto simp: findRoute_def Let_def split: prod.splits sum.splits)

lemma sendBeacon_router: "router (snd (sendBeacon lib now w)) = router w"
  using secure_router[of lib now "createRoutingMessage now HELLO [] (router w)" w]
  by (auto simp: sendBeacon_def Let_def split: prod.splits sum.splits)

lemma invalidateRoute_le:
  "routingTable (router (snd (invalidateRoute lib now d w))) \<subseteq>\<^sub>m routingTable (router w)"
proof (cases "routingTable (router w) d")
  case None
  then show ?thesis by (simp add: invalidateRoute_def)
next
  case (Some found)
  let ?w1 = "w\<lparr>router := (router w)\<lparr>routingTable := (routingTable (router w))(d := None)\<rparr>\<rparr>"
  have "router (snd (invalidateRoute lib now d w)) = router ?w1"
    using Some secure_router[of lib now "createRoutingMessage now ROUTE_ERROR d (router ?w1)" ?w1]
    by (auto simp: invalidateRoute_def Let_def split: prod.splits sum.splits)
  then show ?thesis by (simp add: map_le_def)
qed

lemma sendData_via_le:
  "routingTable (router (snd (sendData_via lib now d dat entry w))) \<subseteq>\<^sub>m routingTable (router w)"
proof (cases "isVehicleTrusted (router w) (nextHop entry)")
  case False
  then have "snd (sendData_via lib now d dat entry w) = snd (invalidateRoute lib now d w)"
    by (auto simp: sendData_via_def split: prod.splits sum.splits)
  then show ?thesis using invalidateRoute_le by simp
next
  case True
  then have "router (snd (sendData_via lib now d dat entry w)) = router w"
    using secure_router[of lib now "createRoutingMessage now DATA d (router w) @ dat" w]
    by (auto simp: sendData_via_def Let_def split: prod.splits sum.splits)
  then show ?thesis by simp
qed

lemma sendData_le:
  "routingTable (router (snd (sendData lib now d dat w))) \<subseteq>\<^sub>m routingTable (router w)"
proof (cases "routingTable (router w) d")
  case (Some entry)
  then show ?thesis using sendData_via_le by (simp add: sendData_def)
next
  case None
  obtain r w1 where f: "findRoute lib now d w = (r, w1)" by (cases "findRoute lib now d w")
  then have w1: "router w1 = router w" using findRoute_router[of lib now d w] by simp
  show ?thesis
  proof (cases r)
    case (Inl e)
    then show ?thesis using None f w1 by (simp add: sendData_def)
  next
    case (Inr found)
    then show ?thesis using None f w1 by (simp add: sendData_def)
  qed
qed

lemma verifyRoutingMessage_state: "snd (verifyRoutingMessage lib now message p) = p"
  by (simp add: verifyRoutingMessage_def verifySecureMessage_def Let_def split: list.splits)

lemma processBeacon_routes: "routingTable (snd (processBeacon lib now u beacon p)) = routingTable p"
  by (simp add: processBeacon_def updateTrustScore_def Let_def)

lemma receiveMessage_routes: "routingTable (snd (receiveMessage lib now u message p)) = routingTable p"
  by (simp add: receiveMessage_def Let_def verifyRoutingMessage_state processBeacon_routes split: list.splits)

lemma updateRoute_bounded: "hop_bounded p \<Longrightarrow> hop_bounded (snd (updateRoute now d entry p))"
  by (auto simp: updateRoute_def hop_bounded_def)

lemma initializeVehicle_routes:
  "routingTable (snd (initializeVehicle lib info p)) = routingTable p"
  by (simp add: initializeVehicle_def Let_def)

lemma updatePosition_le:
  "routingTable (snd (updatePosition now newPos p)) \<subseteq>\<^sub>m routingTable p"
  by (simp add: updatePosition_def pruneExpiredEntries_def erase_if_le)

lemma updateTrustScore_routes:
  "routingTable (updateTrustScore i s p) = routingTable p"
  by (simp add: updateTrustScore_def Let_def)

lemma hop_bounded_eq: "hop_bounded p \<Longrightarrow> routingTable p' = routingTable p \<Longrightarrow> hop_bounded p'"
  by (simp add: hop_bounded_def)

lemma settle_Some: "settle r = Some w' \<Longrightarrow> w' = snd r"
  by (auto simp: settle_def split: sum.splits exn.splits)

lemma run_hop_bounded: "hop_bounded (router w) \<Longrightarrow> run e c w = Some w' \<Longrightarrow> hop_bounded (router w')"
proof (cases c)
  case (InitializeVehicle info)
  assume "hop_bounded (router w)" "run e c w = Some w'"
  then show ?thesis using InitializeVehicle initializeVehicle_routes hop_bounded_eq
    by auto
next
  case (UpdatePosition newPos)
  assume "hop_bounded (router w)" "run e c w = Some w'"
  then show ?thesis using UpdatePosition updatePosition_le hop_bounded_le
    by auto
next
  case (SendData d dat)
  assume "hop_bounded (router w)" "run e c w = Some w'"
  then show ?thesis using SendData sendData_le hop_bounded_le by (auto dest!: settle_Some)
next
  case (ReceiveMessage m)
  assume "hop_bounded (router w)" "run e c w = Some w'"
  then show ?thesis using ReceiveMessage receiveMessage_routes hop_bounded_eq
    by auto
next
  case (FindRoute d)
  assume "hop_bounded (router w)" "run e c w = Some w'"
  then show ?thesis using FindRoute findRoute_router by (auto dest!: settle_Some)
next
  case (UpdateRoute d entry)
  assume "hop_bounded (router w)" "run e c w = Some w'"
  then show ?thesis using UpdateRoute updateRoute_bounded by auto
next
  case (InvalidateRoute d)
  assume "hop_bounded (router w)" "run e c w = Some w'"
  then show ?thesis using InvalidateRoute invalidateRoute_le hop_bounded_le by (auto dest!: settle_Some)
next
  case (UpdateTrustScore i s)
  assume "hop_bounded (router w)" "run e c w = Some w'"
  then show ?thesis using UpdateTrustScore updateTrustScore_routes hop_bounded_eq by auto
next
  case SendBeacon
  assume "hop_bounded (router w)" "run e c w = Some w'"
  then show ?thesis using SendBeacon sendBeacon_router by (auto dest!: settle_Some)
next
  case (ProcessBeacon b)
  assume "hop_bounded (router w)" "run e c w = Some w'"
  then show ?thesis using ProcessBeacon processBeacon_routes hop_bounded_eq by auto
qed auto

lemma reachable_hop_bounded: "reachable ident w \<Longrightarrow> hop_bounded (router w)"
proof (induction rule: reachable.induct)
  case (constructed n u)
  then show ?case by (simp add: hop_bounded_def SecureRoutingProtocol_new_def)
next
  case (called w e c w')
  then show ?case using run_hop_bounded by blast
next
  case (elsewhere w)
  then show ?case by simp
qed


text \<open>
  C8: in every reachable state of a routing instance, every entry of the routing table
  has \<open>hopCount < MAX_HOP_COUNT\<close>; \<open>updateRoute\<close> returns false and leaves the
  instance unchanged for an entry with \<open>hopCount \<ge> MAX_HOP_COUNT\<close> or with
  \<open>timestamp + ROUTE_TIMEOUT < now\<close>, the sum and the comparison being those of the
  clock's 64-bit counts. (No other operation adds an entry: that is the induction over
  the calls, in \<open>run_hop_bounded\<close>.)
\<close>

theorem routingTable_hopCount_bounded:
  "(reachable ident w \<longrightarrow>
      (\<forall>d r. routingTable (router w) d = Some r \<longrightarrow> hopCount r < MAX_HOP_COUNT)) \<and>
   (hopCount entry \<ge> MAX_HOP_COUNT \<or>
      sint (route_timestamp entry + ROUTE_TIMEOUT) < sint now \<longrightarrow>
      updateRoute now destination entry p = (False, p))"
  using reachable_hop_bounded [of ident w]
  by (auto simp: hop_bounded_def updateRoute_def)

lemma reachable_test_router:
  "reachable ''test_vehicle'' \<lparr>sequence = 0, router = test_router\<rparr>"
proof -
  let ?w0 = "\<lparr>sequence = 0, router = SecureRoutingProtocol_new test_info ''test_vehicle''\<rparr>"
  have "reachable ''test_vehicle'' ?w0" by (rule reachable.constructed)
  moreover have "run test_environment (InitializeVehicle test_info) ?w0
                   = Some \<lparr>sequence = 0, router = test_router\<rparr>"
    by (simp add: test_environment_def test_router_def)
  ultimately show ?thesis by (rule reachable.called)
qed

lemma reachable_routed: "reachable ''test_vehicle'' routed"
proof -
  have "run test_environment (UpdateRoute ''destination1'' test_entry)
          \<lparr>sequence = 0, router = test_router\<rparr> = Some routed"
    by (simp add: test_environment_def routed_def)
  with reachable_test_router show ?thesis by (rule reachable.called)
qed

lemma routed_entry: "routingTable (router routed) ''destination1'' = Some test_entry"
  by (simp add: routed_def updateRoute_def test_entry_def MAX_HOP_COUNT_def ROUTE_TIMEOUT_def
      word_le_nat_alt)

theorem routingTable_hopCount_bounded_witness:
  "reachable ''test_vehicle'' routed \<and>
   routingTable (router routed) ''destination1'' = Some test_entry \<and>
   hopCount test_entry < MAX_HOP_COUNT \<and>
   hopCount (test_entry\<lparr>hopCount := 10\<rparr>) \<ge> MAX_HOP_COUNT \<and>
   updateRoute 1700000000000000000 ''destination1'' (test_entry\<lparr>hopCount := 10\<rparr>) test_router
     = (False, test_router) \<and>
   sint (route_timestamp test_entry + ROUTE_TIMEOUT) < sint (1700000061000000000 :: 64 word) \<and>
   updateRoute 1700000061000000000 ''destination1'' test_entry test_router = (False, test_router)"
proof -
  have a: "hopCount (test_entry\<lparr>hopCount := 10\<rparr>) \<ge> MAX_HOP_COUNT"
    by (simp add: MAX_HOP_COUNT_def)
  have b: "sint (route_timestamp test_entry + ROUTE_TIMEOUT)
             < sint (1700000061000000000 :: 64 word)"
    by (simp add: test_entry_def ROUTE_TIMEOUT_def)
  show ?thesis
    using routingTable_hopCount_bounded [where ident = "''test_vehicle''" and w = routed
        and entry = "test_entry\<lparr>hopCount := 10\<rparr>" and now = 1700000000000000000
        and destination = "''destination1''" and p = test_router]
      routingTable_hopCount_bounded [where ident = "''test_vehicle''" and w = routed
        and entry = test_entry and now = 1700000061000000000
        and destination = "''destination1''" and p = test_router]
      reachable_routed routed_entry a b
    by blast
qed

section \<open>Rejected messages\<close>

lemma receiveMessage_false_keeps_state:
  "\<not> fst (receiveMessage lib now u message p) \<Longrightarrow> snd (receiveMessage lib now u message p) = p"
  by (auto simp: receiveMessage_def processBeacon_def verifyRoutingMessage_state
      verifySecureMessage_def Let_def split: list.splits if_splits)

text \<open>
  C9: when \<open>verifyRoutingMessage\<close> fails on the bytes, \<open>receiveMessage\<close> returns
  false and the neighbour table, the routing table and the trust scores are what they
  were before the call. More generally, whenever \<open>receiveMessage\<close> returns false
  (also on a beacon that \<open>processBeacon\<close> rejects) the whole instance is unchanged.
\<close>

theorem receiveMessage_rejected_unchanged:
  "(\<not> fst (verifyRoutingMessage lib now message p) \<longrightarrow>
      fst (receiveMessage lib now u message p) = False \<and>
      neighborTable (snd (receiveMessage lib now u message p)) = neighborTable p \<and>
      routingTable (snd (receiveMessage lib now u message p)) = routingTable p \<and>
      trustScores (snd (receiveMessage lib now u message p)) = trustScores p) \<and>
   (\<not> fst (receiveMessage lib now u message p) \<longrightarrow>
      snd (receiveMessage lib now u message p) = p)"
proof -
  have "\<not> fst (verifyRoutingMessage lib now message p) \<Longrightarrow>
        receiveMessage lib now u message p = (False, p)"
    by (simp add: receiveMessage_def Let_def verifyRoutingMessage_state)
  then show ?thesis using receiveMessage_false_keeps_state by auto
qed

theorem receiveMessage_rejected_unchanged_witness:
  "\<not> fst (verifyRoutingMessage toy_library 1700000000000000000 [] test_router) \<and>
   receiveMessage toy_library 1700000000000000000 test_info [] test_router = (False, test_router) \<and>
   \<not> fst (verifyRoutingMessage toy_library 1700000000000000000 [0, 116] test_router) \<and>
   fst (receiveMessage toy_library 1700000000000000000 test_info [0, 116] test_router) = False \<and>
   neighborTable (snd (receiveMessage toy_library 1700000000000000000 test_info [0, 116] test_router))
     = neighborTable test_router"
proof -
  have a: "\<not> fst (verifyRoutingMessage toy_library 1700000000000000000 [] test_router)"
    by (simp add: verifyRoutingMessage_def)
  have "\<not> isValidTimestamp (now_ms 1700000000000000000) 0"
    unfolding isValidTimestamp_def MESSAGE_TIMEOUT_def now_ms_def duration_cast_milliseconds_def
      ticks_per_millisecond_def signed_divide_int_def
    by simp
  then have b: "\<not> fst (verifyRoutingMessage toy_library 1700000000000000000 [0, 116] test_router)"
    by (simp add: verifyRoutingMessage_def verifySecureMessage_def SecureMessage_empty_def)
  show ?thesis
    using receiveMessage_rejected_unchanged [where lib = toy_library and now = 1700000000000000000 and message = "[]"
        and p = test_router and u = test_info]
      receiveMessage_rejected_unchanged [where lib = toy_library and now = 1700000000000000000 and message = "[0, 116]"
        and p = test_router and u = test_info] a b
    by (metis prod.collapse)
qed

section \<open>Trust in the own id\<close>






section \<open>Sending without a route\<close>

text \<open>
  C3 fails on the code: with no entry for the destination, \<open>sendData\<close> never returns
  false. \<open>findRoute\<close> installs nothing and either throws (no private key, or signing
  fails) or returns true; in the second case \<open>sendData\<close> dereferences
  \<open>routingTable.end()\<close>.
\<close>

theorem sendData_without_route:
  "routingTable (router w) destination = None \<Longrightarrow>
   fst (sendData lib now destination dat w)
     = Inl (undefined_behaviour ''routeIt->second at routingTable.end()'') \<or>
   (\<exists>what. fst (sendData lib now destination dat w) = Inl (runtime_error what))"
proof -
  assume none: "routingTable (router w) destination = None"
  obtain r w1 where f: "findRoute lib now destination w = (r, w1)"
    by (cases "findRoute lib now destination w")
  then have w1: "router w1 = router w"
    using findRoute_router [of lib now destination w] by simp
  have found: "r = Inr True \<or> (\<exists>e. r = Inl e)"
    using f by (auto simp: findRoute_def Let_def split: prod.splits sum.splits)
  have thrown: "\<exists>what. e = runtime_error what" if "r = Inl e" for e
    using f that
    by (auto simp: findRoute_def secure_def createSecureMessage_def signMessage_def Let_def
        split: prod.splits sum.splits option.splits)
  show ?thesis
    using none f w1 found thrown by (auto simp: sendData_def)
qed

theorem sendData_without_route_witness:
  "routingTable (router test_process) ''destination1'' = None \<and>
   fst (sendData toy_library 1700000000000000000 ''destination1'' test_payload test_process)
     = Inl (undefined_behaviour ''routeIt->second at routingTable.end()'')"
proof -
  have h: "routingTable (router test_process) ''destination1'' = None"
    by (simp add: test_process_def test_router_eq)
  have "findRoute toy_library 1700000000000000000 ''destination1'' test_process
          = (Inr True, test_process\<lparr>sequence := 1\<rparr>)"
    by (simp add: findRoute_def secure_def createSecureMessage_def signMessage_def Let_def
        test_process_def test_router_eq toy_library_def)
  then have "fst (sendData toy_library 1700000000000000000 ''destination1'' test_payload
                test_process) = Inl (undefined_behaviour ''routeIt->second at routingTable.end()'')"
    using h by (simp add: sendData_def test_process_def test_router_eq)
  then show ?thesis
    using h sendData_without_route [OF h, of toy_library 1700000000000000000 test_payload] by simp
qed

end
